theory Spec2Isabelle
  imports Main "HOL-Library.List_Lexorder"
begin

section \<open>Python strings\<close>

text \<open>
  A Python \<open>str\<close> is a sequence of Unicode code points, so \<open>len\<close> counts code points.
  A string is modelled as the list of its code points; \<open>lit\<close> writes an ASCII literal.
  Comparison of strings (used by \<open>sorted\<close>) is the lexicographic order on code points,
  which is the order of lists of naturals.
\<close>

type_synonym pystr = "nat list"

definition lit :: "string \<Rightarrow> pystr" where
  "lit s = map of_char s"

text \<open>The code points Python's \<open>str.strip()\<close> and \<open>str.split()\<close> treat as whitespace.\<close>

definition isspace :: "nat \<Rightarrow> bool" where
  "isspace c \<longleftrightarrow>
     (9 \<le> c \<and> c \<le> 13) \<or> (28 \<le> c \<and> c \<le> 32) \<or> c = 133 \<or> c = 160 \<or> c = 5760 \<or>
     (8192 \<le> c \<and> c \<le> 8202) \<or> c = 8232 \<or> c = 8233 \<or> c = 8239 \<or> c = 8287 \<or> c = 12288"

definition strip :: "pystr \<Rightarrow> pystr" where
  "strip s = rev (dropWhile isspace (rev (dropWhile isspace s)))"

text \<open>\<open>s.split(sep)\<close> for a one-character separator: always at least one field.\<close>

fun split_on :: "nat \<Rightarrow> pystr \<Rightarrow> pystr \<Rightarrow> pystr list" where
  "split_on sep w [] = [w]"
| "split_on sep w (c # cs) =
     (if c = sep then w # split_on sep [] cs else split_on sep (w @ [c]) cs)"

text \<open>\<open>s.split()\<close>: fields separated by runs of whitespace, no empty field.\<close>

fun split_ws :: "pystr \<Rightarrow> pystr \<Rightarrow> pystr list" where
  "split_ws w [] = (if w = [] then [] else [w])"
| "split_ws w (c # cs) =
     (if isspace c then (if w = [] then split_ws [] cs else w # split_ws [] cs)
      else split_ws (w @ [c]) cs)"

text \<open>\<open>sep.join(xs)\<close>.\<close>

fun join :: "pystr \<Rightarrow> pystr list \<Rightarrow> pystr" where
  "join sep [] = []"
| "join sep [x] = x"
| "join sep (x # y # ys) = x @ sep @ join sep (y # ys)"

text \<open>
  \<open>s.lower()\<close>, written out for the ASCII letters. Python's full Unicode case mapping is
  not reproduced for other code points; the program only compares the result with the
  one-character string \<open>y\<close>, and no code point other than \<open>Y\<close> and \<open>y\<close> lowercases to it.
\<close>

definition lower :: "pystr \<Rightarrow> pystr" where
  "lower s = map (\<lambda>c. if 65 \<le> c \<and> c \<le> 90 then c + 32 else c) s"

text \<open>\<open>str(n)\<close> for an integer: decimal digits, with a minus sign when negative.\<close>

fun str_nat :: "nat \<Rightarrow> pystr" where
  "str_nat n = (if n < 10 then [48 + n] else str_nat (n div 10) @ [48 + n mod 10])"

declare str_nat.simps [simp del]

definition str_int :: "int \<Rightarrow> pystr" where
  "str_int i = (if i < 0 then 45 # str_nat (nat (- i)) else str_nat (nat i))"

text \<open>\<open>xs.insert(i, x)\<close>: a negative index counts from the end, and the index is clamped.\<close>

definition py_insert :: "int \<Rightarrow> 'a \<Rightarrow> 'a list \<Rightarrow> 'a list" where
  "py_insert i x xs =
     (let n = int (length xs);
          j = (if i < 0 then max 0 (n + i) else min i n)
      in take (nat j) xs @ [x] @ drop (nat j) xs)"

text \<open>
  The truth value Python gives an optional string in \<open>if x:\<close>: false for \<open>None\<close> and for
  the empty string.
\<close>

definition truthy :: "pystr option \<Rightarrow> bool" where
  "truthy x = (case x of None \<Rightarrow> False | Some s \<Rightarrow> s \<noteq> [])"

section \<open>Exceptions, effects and the environment\<close>

text \<open>
  The exceptions the program can meet. \<open>OtherException\<close> stands for any other subclass
  of \<open>Exception\<close> (a PermissionError or another OSError of a launch, a decoding error,
  pyperclip's own exception). \<open>SystemExit\<close> is what \<open>sys.exit\<close> raises; it is not a
  subclass of \<open>Exception\<close>. Asynchronous interrupts are not modelled.
\<close>

datatype exn =
    FileNotFoundError
  | CalledProcessError int
  | IndexError
  | EOFError
  | OtherException
  | SystemExit int

fun is_Exception :: "exn \<Rightarrow> bool" where
  "is_Exception (SystemExit n) = False"
| "is_Exception e = True"

text \<open>
  Every \<open>print\<close> call of the source is one message; the constructor carries the values
  interpolated into the text. The number after L is the line of the call in tts_kali.py.
\<close>

datatype msg =
    Msg_espeak_missing            \<comment> \<open>L18: espeak is not installed\<close>
  | Msg_espeak_install_hint       \<comment> \<open>L19\<close>
  | Msg_clipboard_empty           \<comment> \<open>L36: clipboard empty or only blanks\<close>
  | Msg_clipboard_error exn       \<comment> \<open>L40\<close>
  | Msg_obtained_via pystr        \<comment> \<open>L56\<close>
  | Msg_saving_to pystr           \<comment> \<open>L86\<close>
  | Msg_params pystr int int      \<comment> \<open>L89: voice, speed, pitch\<close>
  | Msg_espeak_error exn          \<comment> \<open>L93\<close>
  | Msg_voices_header             \<comment> \<open>L103\<close>
  | Msg_rule                      \<comment> \<open>L104\<close>
  | Msg_voice_line pystr pystr    \<comment> \<open>L110: language code, voice name\<close>
  | Msg_voices_failed exn         \<comment> \<open>L112\<close>
  | Msg_test_banner               \<comment> \<open>L169\<close>
  | Msg_test_step1                \<comment> \<open>L170\<close>
  | Msg_test_step2                \<comment> \<open>L171\<close>
  | Msg_test_count nat            \<comment> \<open>L174\<close>
  | Msg_test_examples pystr       \<comment> \<open>L175\<close>
  | Msg_test_step3 pystr          \<comment> \<open>L178\<close>
  | Msg_text_from_args pystr      \<comment> \<open>L186: the first 100 characters\<close>
  | Msg_acquiring                 \<comment> \<open>L188\<close>
  | Msg_no_text                   \<comment> \<open>L192-199: what to do when no text was found\<close>
  | Msg_long_text nat             \<comment> \<open>L203\<close>
  | Msg_cancelled                 \<comment> \<open>L206\<close>
  | Msg_text_received nat         \<comment> \<open>L209\<close>
  | Msg_text_start pystr          \<comment> \<open>L210: the first 150 characters\<close>
  | Msg_start_speech              \<comment> \<open>L213\<close>
  | Msg_done_saved pystr          \<comment> \<open>L225\<close>
  | Msg_done_played               \<comment> \<open>L227\<close>
  | Msg_speech_failed             \<comment> \<open>L229\<close>

text \<open>
  What the program does to the outside, in order: a message printed, \<open>subprocess.run\<close>
  called on a command, the prompt of \<open>input\<close> shown.
\<close>

datatype event = Print msg | Run "pystr list" | Prompt

text \<open>
  A computation yields the events it caused and either the exception it raised (\<open>Inl\<close>)
  or the value it returned (\<open>Inr\<close>).
\<close>

type_synonym 'a res = "event list \<times> (exn + 'a)"

definition return_res :: "'a \<Rightarrow> 'a res" where
  "return_res a = ([], Inr a)"

definition raise_res :: "exn \<Rightarrow> 'a res" where
  "raise_res e = ([], Inl e)"

definition emit :: "event \<Rightarrow> unit res" where
  "emit ev = ([ev], Inr ())"

definition bind_res :: "'a res \<Rightarrow> ('a \<Rightarrow> 'b res) \<Rightarrow> 'b res" where
  "bind_res m f =
     (case m of
        (t, Inl e) \<Rightarrow> (t, Inl e)
      | (t, Inr a) \<Rightarrow> (case f a of (t', r) \<Rightarrow> (t @ t', r)))"

definition then_res :: "'a res \<Rightarrow> 'b res \<Rightarrow> 'b res" where
  "then_res m k = bind_res m (\<lambda>_. k)"

text \<open>
  \<open>try: m except ...: h\<close>. The handler returns \<open>None\<close> for an exception that no
  \<open>except\<close> clause matches, which then propagates.
\<close>

definition try_except :: "'a res \<Rightarrow> (exn \<Rightarrow> 'a res option) \<Rightarrow> 'a res" where
  "try_except m h =
     (case m of
        (t, Inl e) \<Rightarrow> (case h e of None \<Rightarrow> (t, Inl e) | Some k \<Rightarrow> (case k of (t', r) \<Rightarrow> (t @ t', r)))
      | (t, Inr a) \<Rightarrow> (t, Inr a))"

text \<open>What a child process does: the launch raises, or it completes with a return code
  and its standard output.\<close>

datatype proc = Raises exn | Completed int pystr

text \<open>
  The environment of one run of the program: what \<open>pyperclip.paste()\<close> does, what
  launching each command does, and what \<open>input\<close> does.
\<close>

record env =
  paste :: "exn + pystr"
  os_run :: "pystr list \<Rightarrow> proc"
  reply :: "exn + pystr"

text \<open>\<open>subprocess.run(cmd, ..., check=check)\<close>, returning the return code and the output.\<close>

definition subprocess_run :: "env \<Rightarrow> pystr list \<Rightarrow> bool \<Rightarrow> (int \<times> pystr) res" where
  "subprocess_run env cmd check =
     then_res (emit (Run cmd))
       (case os_run env cmd of
          Raises e \<Rightarrow> raise_res e
        | Completed rc out \<Rightarrow>
            if check \<and> rc \<noteq> 0 then raise_res (CalledProcessError rc) else return_res (rc, out))"

definition pyperclip_paste :: "env \<Rightarrow> pystr res" where
  "pyperclip_paste env = (case paste env of Inl e \<Rightarrow> raise_res e | Inr s \<Rightarrow> return_res s)"

definition input :: "env \<Rightarrow> pystr res" where
  "input env =
     then_res (emit Prompt) (case reply env of Inl e \<Rightarrow> raise_res e | Inr s \<Rightarrow> return_res s)"

section \<open>The class KaliTTS\<close>

subsection \<open>check_dependencies\<close>

text \<open>
  The second check of the source imports pyperclip again; the module was already imported
  when the file was loaded, so that import cannot fail and the branch is not modelled.
\<close>

definition check_dependencies :: "env \<Rightarrow> unit res" where
  "check_dependencies env =
     try_except
       (then_res (subprocess_run env [lit ''espeak'', lit ''--version''] True) (return_res ()))
       (\<lambda>e. case e of
          CalledProcessError rc \<Rightarrow>
            Some (then_res (emit (Print Msg_espeak_missing))
                 (then_res (emit (Print Msg_espeak_install_hint)) (raise_res (SystemExit 1))))
        | FileNotFoundError \<Rightarrow>
            Some (then_res (emit (Print Msg_espeak_missing))
                 (then_res (emit (Print Msg_espeak_install_hint)) (raise_res (SystemExit 1))))
        | _ \<Rightarrow> None)"

subsection \<open>_fallback_get_text and get_selected_text\<close>

definition methods :: "(pystr list \<times> pystr) list" where
  "methods =
     [([lit ''xclip'', lit ''-o'', lit ''-selection'', lit ''primary''], lit ''X11 primary selection''),
      ([lit ''xclip'', lit ''-o''], lit ''X11 clipboard''),
      ([lit ''xsel'', lit ''-o'', lit ''--primary''], lit ''XSel primary'')]"

text \<open>
  The loop over the methods. The body yields \<open>Some v\<close> when it returns \<open>v\<close> from the
  function and \<open>None\<close> when the loop goes on to the next method.
\<close>

fun fallback_loop :: "env \<Rightarrow> (pystr list \<times> pystr) list \<Rightarrow> pystr option res" where
  "fallback_loop env [] = return_res None"
| "fallback_loop env ((cmd, desc) # rest) =
     bind_res
       (try_except
          (bind_res (subprocess_run env cmd False) (\<lambda>(rc, out).
             if rc = 0 \<and> strip out \<noteq> []
             then then_res (emit (Print (Msg_obtained_via desc))) (return_res (Some (Some (strip out))))
             else return_res None))
          (\<lambda>e. if e = FileNotFoundError then Some (return_res None) else None))
       (\<lambda>r. case r of Some v \<Rightarrow> return_res v | None \<Rightarrow> fallback_loop env rest)"

declare fallback_loop.simps [simp del]

definition fallback_get_text :: "env \<Rightarrow> pystr option res" where
  "fallback_get_text env = fallback_loop env methods"

definition get_selected_text :: "env \<Rightarrow> pystr option res" where
  "get_selected_text env =
     try_except
       (bind_res (pyperclip_paste env) (\<lambda>text.
          if text = [] \<or> strip text = []
          then then_res (emit (Print Msg_clipboard_empty)) (return_res None)
          else return_res (Some (strip text))))
       (\<lambda>e. if is_Exception e
             then Some (then_res (emit (Print (Msg_clipboard_error e))) (fallback_get_text env))
             else None)"

subsection \<open>text_to_speech\<close>

text \<open>
  The keyword arguments of \<open>text_to_speech\<close>: \<open>None\<close> is a key that was not passed
  (for \<open>output\<close> also the value \<open>None\<close>, which the source treats alike).
\<close>

record kwargs =
  kw_voice :: "pystr option"
  kw_speed :: "int option"
  kw_pitch :: "int option"
  kw_amplitude :: "int option"
  kw_output :: "pystr option"

definition get_voice :: "kwargs \<Rightarrow> pystr" where
  "get_voice kw = (case kw_voice kw of None \<Rightarrow> lit ''ru'' | Some v \<Rightarrow> v)"

definition get_speed :: "kwargs \<Rightarrow> int" where
  "get_speed kw = (case kw_speed kw of None \<Rightarrow> 160 | Some v \<Rightarrow> v)"

definition get_pitch :: "kwargs \<Rightarrow> int" where
  "get_pitch kw = (case kw_pitch kw of None \<Rightarrow> 50 | Some v \<Rightarrow> v)"

definition get_amplitude :: "kwargs \<Rightarrow> int" where
  "get_amplitude kw = (case kw_amplitude kw of None \<Rightarrow> 100 | Some v \<Rightarrow> v)"

definition output_given :: "kwargs \<Rightarrow> bool" where
  "output_given kw = truthy (kw_output kw)"

text \<open>The command list \<open>cmd\<close> as it is when \<open>subprocess.run\<close> is called (lines 71 to 85).\<close>

definition espeak_cmd :: "pystr \<Rightarrow> kwargs \<Rightarrow> pystr list" where
  "espeak_cmd text kw =
     (let cmd = [lit ''espeak'',
                 lit ''-v'', get_voice kw,
                 lit ''-s'', str_int (get_speed kw),
                 lit ''-p'', str_int (get_pitch kw),
                 lit ''-a'', str_int (get_amplitude kw),
                 lit ''--'',
                 text]
      in if output_given kw
         then py_insert (- 1) (the (kw_output kw)) (py_insert (- 1) (lit ''-w'') cmd)
         else cmd)"

definition text_to_speech :: "env \<Rightarrow> pystr \<Rightarrow> kwargs \<Rightarrow> bool res" where
  "text_to_speech env text kw =
     then_res
       (if output_given kw then emit (Print (Msg_saving_to (the (kw_output kw)))) else return_res ())
       (try_except
          (then_res (emit (Print (Msg_params (get_voice kw) (get_speed kw) (get_pitch kw))))
          (then_res (subprocess_run env (espeak_cmd text kw) True)
                    (return_res True)))
          (\<lambda>e. case e of
             CalledProcessError rc \<Rightarrow>
               Some (then_res (emit (Print (Msg_espeak_error e))) (return_res False))
           | _ \<Rightarrow> None))"

subsection \<open>list_voices and get_available_voices\<close>

fun print_voice_lines :: "pystr list \<Rightarrow> unit res" where
  "print_voice_lines [] = return_res ()"
| "print_voice_lines (line # rest) =
     (let parts = split_ws [] line
      in then_res
           (if length parts \<ge> 4
            then emit (Print (Msg_voice_line (parts ! 1) (join (lit '' '') (drop 3 parts))))
            else return_res ())
           (print_voice_lines rest))"

definition list_voices :: "env \<Rightarrow> unit res" where
  "list_voices env =
     try_except
       (bind_res (subprocess_run env [lit ''espeak'', lit ''--voices''] False) (\<lambda>(rc, out).
          let lines = split_on 10 [] (strip out)
          in then_res (emit (Print Msg_voices_header))
            (then_res (emit (Print Msg_rule))
            (print_voice_lines (drop 1 lines)))))
       (\<lambda>e. if is_Exception e then Some (emit (Print (Msg_voices_failed e))) else None)"

text \<open>\<open>xs[i]\<close> for \<open>i \<ge> 0\<close>: an IndexError out of range.\<close>

definition index :: "'a list \<Rightarrow> nat \<Rightarrow> 'a res" where
  "index xs i = (if i < length xs then return_res (xs ! i) else raise_res IndexError)"

text \<open>The loop of \<open>get_available_voices\<close>, with the list \<open>voices\<close> built so far.\<close>

fun collect_voices :: "pystr list \<Rightarrow> pystr list \<Rightarrow> pystr list res" where
  "collect_voices [] voices = return_res voices"
| "collect_voices (line # rest) voices =
     (let parts = split_ws [] line
      in if parts \<noteq> []
         then bind_res (index parts 1) (\<lambda>v. collect_voices rest (voices @ [v]))
         else collect_voices rest voices)"

definition fallback_voices :: "pystr list" where
  "fallback_voices = [lit ''ru'', lit ''en'', lit ''de'', lit ''fr'', lit ''es'']"

text \<open>The body of the \<open>try\<close> block of \<open>get_available_voices\<close>.\<close>

definition voices_try :: "env \<Rightarrow> pystr list res" where
  "voices_try env =
     bind_res (subprocess_run env [lit ''espeak'', lit ''--voices''] False) (\<lambda>(rc, out).
       bind_res (collect_voices (drop 1 (split_on 10 [] (strip out))) []) (\<lambda>voices.
         return_res (sorted_list_of_set (set voices))))"

text \<open>The bare \<open>except:\<close> catches every exception.\<close>

definition get_available_voices :: "env \<Rightarrow> pystr list res" where
  "get_available_voices env = try_except (voices_try env) (\<lambda>e. Some (return_res fallback_voices))"

section \<open>main\<close>

text \<open>The parsed command line.\<close>

record args =
  args_voice :: pystr
  args_speed :: int
  args_pitch :: int
  args_amplitude :: int
  args_output :: "pystr option"
  args_list_voices :: bool
  args_text :: "pystr option"
  args_test :: bool

text \<open>The utterance of the self-test (line 177), as code points.\<close>

definition test_text :: pystr where
  "test_text =
     [1058, 1077, 1089, 1090, 32, 1088, 1072, 1073, 1086, 1090, 1099, 32, 84, 84, 83, 32,
      1089, 1080, 1089, 1090, 1077, 1084, 1099]"

text \<open>The branch \<open>if args.test:\<close> (lines 168 to 181).\<close>

definition main_test :: "env \<Rightarrow> unit res" where
  "main_test env =
     then_res (emit (Print Msg_test_banner))
    (then_res (emit (Print Msg_test_step1))
    (then_res (emit (Print Msg_test_step2))
    (bind_res (get_available_voices env) (\<lambda>voices.
     then_res (emit (Print (Msg_test_count (length voices))))
    (then_res (emit (Print (Msg_test_examples (join (lit '', '') (take 5 voices)))))
    (then_res (emit (Print (Msg_test_step3 test_text)))
    (then_res (text_to_speech env test_text
                 \<lparr>kw_voice = Some (lit ''ru''), kw_speed = Some 160, kw_pitch = None,
                  kw_amplitude = None, kw_output = None\<rparr>)
              (return_res ()))))))))"

text \<open>Getting the text (lines 184 to 200).\<close>

definition main_acquire :: "env \<Rightarrow> args \<Rightarrow> pystr res" where
  "main_acquire env a =
     (if truthy (args_text a)
      then then_res (emit (Print (Msg_text_from_args (take 100 (the (args_text a))))))
                    (return_res (the (args_text a)))
      else then_res (emit (Print Msg_acquiring))
          (bind_res (get_selected_text env) (\<lambda>text.
             if \<not> truthy text
             then then_res (emit (Print Msg_no_text)) (raise_res (SystemExit 1))
             else return_res (the text))))"

text \<open>The keyword arguments of the call at lines 214 to 221.\<close>

definition kwargs_of :: "args \<Rightarrow> kwargs" where
  "kwargs_of a =
     \<lparr>kw_voice = Some (args_voice a), kw_speed = Some (args_speed a),
      kw_pitch = Some (args_pitch a), kw_amplitude = Some (args_amplitude a),
      kw_output = args_output a\<rparr>"

text \<open>Speaking (lines 209 to 229), once the length check has let the text through.\<close>

definition main_speak :: "env \<Rightarrow> args \<Rightarrow> pystr \<Rightarrow> unit res" where
  "main_speak env a text =
     then_res (emit (Print (Msg_text_received (length text))))
    (then_res (emit (Print (Msg_text_start (take 150 text))))
    (then_res (emit (Print Msg_start_speech))
    (bind_res (text_to_speech env text (kwargs_of a)) (\<lambda>success.
       if success
       then (if truthy (args_output a)
             then emit (Print (Msg_done_saved (the (args_output a))))
             else emit (Print Msg_done_played))
       else emit (Print Msg_speech_failed)))))"

text \<open>The length check with its confirmation (lines 202 to 207), then speaking.\<close>

definition main_confirm :: "env \<Rightarrow> args \<Rightarrow> pystr \<Rightarrow> unit res" where
  "main_confirm env a text =
     (if length text > 1000
      then then_res (emit (Print (Msg_long_text (length text))))
          (bind_res (input env) (\<lambda>confirm.
             if lower confirm \<noteq> lit ''y''
             then emit (Print Msg_cancelled)
             else main_speak env a text))
      else main_speak env a text)"

text \<open>\<open>main\<close>, after the command line has been parsed; \<open>KaliTTS()\<close> runs the dependency check.\<close>

definition main :: "env \<Rightarrow> args \<Rightarrow> unit res" where
  "main env a =
     then_res (check_dependencies env)
       (if args_list_voices a then list_voices env
        else if args_test a then main_test env
        else bind_res (main_acquire env a) (\<lambda>text. main_confirm env a text))"

text \<open>
  The exit status of the process for \<open>if __name__ == '__main__': main()\<close>: 0 when
  \<open>main\<close> returns, the argument of \<open>sys.exit\<close>, and 1 for an exception nobody caught
  (the interpreter prints the traceback).
\<close>

definition exit_status :: "unit res \<Rightarrow> int" where
  "exit_status r = (case snd r of Inr _ \<Rightarrow> 0 | Inl (SystemExit n) \<Rightarrow> n | Inl _ \<Rightarrow> 1)"

text \<open>The commands \<open>subprocess.run\<close> was called on, in order.\<close>

fun launched :: "event list \<Rightarrow> pystr list list" where
  "launched [] = []"
| "launched (Run cmd # evs) = cmd # launched evs"
| "launched (ev # evs) = launched evs"

text \<open>The messages printed, in order.\<close>

fun printed :: "event list \<Rightarrow> msg list" where
  "printed [] = []"
| "printed (Print m # evs) = m # printed evs"
| "printed (ev # evs) = printed evs"

section \<open>Example runs\<close>

text \<open>
  An environment given by a table of commands: a command that is not in the table is not
  installed, so launching it raises FileNotFoundError.
\<close>

definition table_env :: "exn + pystr \<Rightarrow> (pystr list \<times> proc) list \<Rightarrow> exn + pystr \<Rightarrow> env" where
  "table_env p tbl r =
     \<lparr>paste = p,
      os_run = (\<lambda>cmd. case map_of tbl cmd of None \<Rightarrow> Raises FileNotFoundError | Some pr \<Rightarrow> pr),
      reply = r\<rparr>"

text \<open>The command line with no option given: the defaults of the argument parser.\<close>

definition default_args :: args where
  "default_args =
     \<lparr>args_voice = lit ''ru'', args_speed = 160, args_pitch = 50, args_amplitude = 100,
      args_output = None, args_list_voices = False, args_text = None, args_test = False\<rparr>"

definition env_blank_clipboard :: env where
  "env_blank_clipboard =
     table_env (Inr (lit ''  ''))
       [([lit ''espeak'', lit ''--version''], Completed 0 []),
        ([lit ''xclip'', lit ''-o'', lit ''-selection'', lit ''primary''], Completed 0 (lit ''hello''))]
       (Inl EOFError)"

definition env_no_text :: env where
  "env_no_text =
     table_env (Inl OtherException)
       [([lit ''espeak'', lit ''--version''], Completed 0 []),
        ([lit ''xclip'', lit ''-o'', lit ''-selection'', lit ''primary''], Completed 0 (lit '' '')),
        ([lit ''xclip'', lit ''-o''], Completed 1 (lit ''x''))]
       (Inl EOFError)"

text \<open>Runs and command lines used as examples below.\<close>

definition args_long_text :: args where
  "args_long_text = default_args\<lparr>args_text := Some (replicate 1001 97)\<rparr>"

definition env_declines :: env where
  "env_declines =
     table_env (Inl OtherException)
       [([lit ''espeak'', lit ''--version''], Completed 0 [])]
       (Inr (lit ''n''))"

definition args_padded_text :: args where
  "args_padded_text = default_args\<lparr>args_text := Some (lit '' hi '')\<rparr>"

definition env_espeak_only :: env where
  "env_espeak_only =
     table_env (Inl OtherException)
       [([lit ''espeak'', lit ''--version''], Completed 0 []),
        ([lit ''espeak'', lit ''-v'', lit ''ru'', lit ''-s'', lit ''160'', lit ''-p'', lit ''50'',
          lit ''-a'', lit ''100'', lit ''--'', lit '' hi ''], Completed 0 [])]
       (Inl EOFError)"

definition args_hi :: args where
  "args_hi = default_args\<lparr>args_text := Some (lit ''hi'')\<rparr>"

definition hi_cmd :: "pystr list" where
  "hi_cmd = [lit ''espeak'', lit ''-v'', lit ''ru'', lit ''-s'', lit ''160'', lit ''-p'', lit ''50'',
          lit ''-a'', lit ''100'', lit ''--'', lit ''hi'']"

definition env_synthesis_fails :: env where
  "env_synthesis_fails =
     table_env (Inl OtherException)
       [([lit ''espeak'', lit ''--version''], Completed 0 []), (hi_cmd, Completed 1 [])]
       (Inl EOFError)"

definition env_launch_fails :: env where
  "env_launch_fails =
     table_env (Inl OtherException)
       [([lit ''espeak'', lit ''--version''], Completed 0 []), (hi_cmd, Raises OtherException)]
       (Inl EOFError)"

definition env_padded_clipboard :: env where
  "env_padded_clipboard =
     table_env (Inr (lit '' hi  ''))
       [([lit ''espeak'', lit ''--version''], Completed 0 [])]
       (Inl EOFError)"

definition kwargs_wav :: kwargs where
  "kwargs_wav = kwargs_of (default_args\<lparr>args_output := Some (lit ''out.wav'')\<rparr>)"

text \<open>Engine outputs: a header with a line of one field, and a header with three voices.\<close>

definition one_field_output :: pystr where
  "one_field_output = lit ''Pty Language\<newline>garbled''"

definition three_voices_output :: pystr where
  "three_voices_output =
     lit ''Pty Language Age/Gender VoiceName File Other Languages\<newline> 5  ru  M  russian  europe/ru\<newline> 5  en  M  default  default\<newline> 5  ru  M  russian_test  other/ru''"

definition env_one_field_line :: env where
  "env_one_field_line =
     table_env (Inl OtherException)
       [([lit ''espeak'', lit ''--version''], Completed 0 []),
        ([lit ''espeak'', lit ''--voices''], Completed 0 one_field_output)]
       (Inl EOFError)"

definition env_no_voices :: env where
  "env_no_voices =
     table_env (Inl OtherException)
       [([lit ''espeak'', lit ''--version''], Completed 0 []),
        ([lit ''espeak'', lit ''--voices''], Completed 0 [])]
       (Inl EOFError)"

definition env_three_voices :: env where
  "env_three_voices =
     table_env (Inl OtherException)
       [([lit ''espeak'', lit ''--version''], Completed 0 []),
        ([lit ''espeak'', lit ''--voices''],
         Completed 0 three_voices_output)]
       (Inl EOFError)"




text \<open>The version probe succeeds, and the engine is gone when the text is to be spoken.\<close>

definition env_engine_vanishes :: env where
  "env_engine_vanishes =
     table_env (Inl OtherException)
       [([lit ''espeak'', lit ''--version''], Completed 0 [])]
       (Inl EOFError)"

section \<open>The fallback chain in the words of the specification\<close>




section \<open>Properties of the model\<close>

lemmas monad_defs = return_res_def raise_res_def emit_def bind_res_def then_res_def try_except_def

lemma last_dropWhile: "dropWhile P xs \<noteq> [] \<Longrightarrow> last (dropWhile P xs) = last xs"
  by (induction xs) (auto split: if_splits)

lemma strip_idem: "strip (strip s) = strip s"
proof -
  define t where "t = dropWhile isspace s"
  define u where "u = dropWhile isspace (rev t)"
  have su: "strip s = rev u" by (simp add: strip_def t_def u_def)
  have 1: "dropWhile isspace (rev u) = rev u"
  proof (cases "u = []")
    case True then show ?thesis by simp
  next
    case False
    then have "last u = last (rev t)" unfolding u_def by (rule last_dropWhile)
    moreover have tn: "t \<noteq> []" using False u_def by auto
    ultimately have "last u = hd t" by (simp add: last_rev)
    moreover have "\<not> isspace (hd t)" using tn unfolding t_def by (simp add: hd_dropWhile)
    ultimately have "\<not> isspace (hd (rev u))" using False by (simp add: hd_rev)
    then show ?thesis using False by (cases "rev u") auto
  qed
  have 2: "dropWhile isspace u = u" unfolding u_def by simp
  show ?thesis unfolding su unfolding strip_def[of "rev u"] using 1 2 by simp
qed

lemma launched_append: "launched (xs @ ys) = launched xs @ launched ys"
  by (induction xs rule: launched.induct) auto

lemma printed_append: "printed (xs @ ys) = printed xs @ printed ys"
  by (induction xs rule: printed.induct) auto

lemma check_dependencies_ok:
  "os_run env [lit ''espeak'', lit ''--version''] = Completed 0 out \<Longrightarrow>
   check_dependencies env = ([Run [lit ''espeak'', lit ''--version'']], Inr ())"
  by (simp add: check_dependencies_def subprocess_run_def monad_defs)

lemma get_selected_text_blank:
  "paste env = Inr t \<Longrightarrow> strip t = [] \<Longrightarrow>
   get_selected_text env = ([Print Msg_clipboard_empty], Inr None)"
  by (simp add: get_selected_text_def pyperclip_paste_def monad_defs)

lemma get_selected_text_raise:
  "paste env = Inl e \<Longrightarrow> is_Exception e \<Longrightarrow>
   get_selected_text env =
     (Print (Msg_clipboard_error e) # fst (fallback_get_text env), snd (fallback_get_text env))"
  by (simp add: get_selected_text_def pyperclip_paste_def monad_defs split: prod.splits)



lemma fallback_step_skip:
  "(case os_run env cmd of Raises e \<Rightarrow> e = FileNotFoundError
     | Completed rc out \<Rightarrow> rc \<noteq> 0 \<or> strip out = []) \<Longrightarrow>
   fallback_loop env ((cmd, desc) # rest) =
     (Run cmd # fst (fallback_loop env rest), snd (fallback_loop env rest))"
  by (auto simp: fallback_loop.simps subprocess_run_def monad_defs split: proc.splits prod.splits)

lemma fallback_step_hit:
  "os_run env cmd = Completed 0 out \<Longrightarrow> strip out \<noteq> [] \<Longrightarrow>
   fallback_loop env ((cmd, desc) # rest) =
     ([Run cmd, Print (Msg_obtained_via desc)], Inr (Some (strip out)))"
  by (auto simp: fallback_loop.simps subprocess_run_def monad_defs split: proc.splits prod.splits)

lemma fallback_step_raise:
  "os_run env cmd = Raises e \<Longrightarrow> e \<noteq> FileNotFoundError \<Longrightarrow>
   fallback_loop env ((cmd, desc) # rest) = ([Run cmd], Inl e)"
  by (auto simp: fallback_loop.simps subprocess_run_def monad_defs split: proc.splits prod.splits)

lemma fallback_loop_launched:
  "set (launched (fst (fallback_loop env ms))) \<subseteq> fst ` set ms"
proof (induction ms)
  case Nil
  then show ?case by (simp add: fallback_loop.simps return_res_def)
next
  case (Cons m ms)
  obtain cmd desc where m: "m = (cmd, desc)" by (cases m)
  show ?case
  proof (cases "os_run env cmd")
    case (Raises e)
    then show ?thesis using Cons m
      by (cases "e = FileNotFoundError") (auto simp: fallback_step_skip fallback_step_raise)
  next
    case (Completed rc out)
    then show ?thesis using Cons m
      by (cases "rc = 0 \<and> strip out \<noteq> []") (auto simp: fallback_step_skip fallback_step_hit)
  qed
qed

lemma get_selected_text_launched:
  "set (launched (fst (get_selected_text env))) \<subseteq> fst ` set methods"
proof (cases "paste env")
  case (Inl e)
  then show ?thesis using fallback_loop_launched[of env methods]
    by (cases "is_Exception e")
       (auto simp: get_selected_text_raise fallback_get_text_def,
        auto simp: get_selected_text_def pyperclip_paste_def monad_defs)
next
  case (Inr t)
  then show ?thesis
    by (auto simp: get_selected_text_def pyperclip_paste_def monad_defs)
qed

lemma fallback_loop_all_skipped:
  "\<forall>cmd \<in> fst ` set ms. (case os_run env cmd of Raises e \<Rightarrow> e = FileNotFoundError
     | Completed rc out \<Rightarrow> rc \<noteq> 0 \<or> strip out = []) \<Longrightarrow>
   fallback_loop env ms = (map (Run \<circ> fst) ms, Inr None)"
proof (induction ms)
  case Nil
  then show ?case by (simp add: fallback_loop.simps return_res_def)
next
  case (Cons m ms)
  obtain cmd desc where m: "m = (cmd, desc)" by (cases m)
  from Cons.prems have "fallback_loop env ms = (map (Run \<circ> fst) ms, Inr None)"
    by (intro Cons.IH) simp
  moreover from Cons.prems m have "case os_run env cmd of Raises e \<Rightarrow> e = FileNotFoundError
     | Completed rc out \<Rightarrow> rc \<noteq> 0 \<or> strip out = []" by simp
  ultimately show ?case unfolding m by (simp add: fallback_step_skip)
qed

lemma espeak_cmd_length: "11 \<le> length (espeak_cmd text kw)"
  by (simp add: espeak_cmd_def py_insert_def Let_def)

lemma methods_cmd_length: "cmd \<in> fst ` set methods \<Longrightarrow> length cmd \<le> 4"
  by (auto simp: methods_def)

lemma bind_res_Inr: "snd m = Inr x \<Longrightarrow> bind_res m f = (fst m @ fst (f x), snd (f x))"
  by (cases m) (simp add: bind_res_def split: prod.splits)

lemma bind_res_Inl: "snd m = Inl e \<Longrightarrow> bind_res m f = (fst m, Inl e)"
  by (cases m) (simp add: bind_res_def)

lemma then_res_emit: "then_res (emit ev) k = (ev # fst k, snd k)"
  by (simp add: then_res_def emit_def bind_res_def split: prod.splits)

lemma res_proj:
  "fst (emit ev) = [ev]" "snd (emit ev) = Inr ()"
  "fst (return_res x) = []" "snd (return_res x) = Inr x"
  "fst (raise_res e) = []" "snd (raise_res e) = Inl e"
  by (simp_all add: emit_def return_res_def raise_res_def)

lemma text_to_speech_launched:
  "launched (fst (text_to_speech env text kw)) = [espeak_cmd text kw]"
  by (simp add: text_to_speech_def subprocess_run_def monad_defs
           split: proc.splits exn.splits prod.splits)

lemma text_to_speech_result:
  "snd (text_to_speech env t kw) =
     (case os_run env (espeak_cmd t kw) of
        Raises e \<Rightarrow> (case e of CalledProcessError rc \<Rightarrow> Inr False | _ \<Rightarrow> Inl e)
      | Completed rc out \<Rightarrow> Inr (rc = 0))"
  by (simp add: text_to_speech_def subprocess_run_def monad_defs
           split: proc.splits exn.splits prod.splits)

lemma espeak_cmd_with_output:
  assumes "kw_output kw = Some path" and "path \<noteq> []"
  shows "espeak_cmd t kw =
           [lit ''espeak'', lit ''-v'', get_voice kw, lit ''-s'', str_int (get_speed kw),
            lit ''-p'', str_int (get_pitch kw), lit ''-a'', str_int (get_amplitude kw),
            lit ''--'', lit ''-w'', path, t]"
  using assms by (simp add: espeak_cmd_def output_given_def truthy_def py_insert_def)

lemma text_to_speech_nonzero:
  "os_run env (espeak_cmd text kw) = Completed rc out \<Longrightarrow> rc \<noteq> 0 \<Longrightarrow>
   text_to_speech env text kw =
     ((if output_given kw then [Print (Msg_saving_to (the (kw_output kw)))] else []) @
      [Print (Msg_params (get_voice kw) (get_speed kw) (get_pitch kw)),
       Run (espeak_cmd text kw),
       Print (Msg_espeak_error (CalledProcessError rc))], Inr False)"
  by (simp add: text_to_speech_def subprocess_run_def monad_defs)

lemma main_speak_launched:
  "launched (fst (main_speak env a text)) = [espeak_cmd text (kwargs_of a)]"
proof -
  let ?t = "text_to_speech env text (kwargs_of a)"
  show ?thesis
  proof (cases "snd ?t")
    case (Inl e)
    then show ?thesis using text_to_speech_launched[of env _ "kwargs_of a"]
      by (simp add: main_speak_def then_res_emit bind_res_Inl kwargs_of_def)
  next
    case (Inr b)
    then show ?thesis using text_to_speech_launched[of env _ "kwargs_of a"]
      by (simp add: main_speak_def then_res_emit bind_res_Inr launched_append res_proj kwargs_of_def)
  qed
qed

lemma main_normal:
  assumes "os_run env [lit ''espeak'', lit ''--version''] = Completed 0 out"
    and "\<not> args_list_voices a" and "\<not> args_test a"
  shows "main env a =
     (Run [lit ''espeak'', lit ''--version''] #
        fst (bind_res (main_acquire env a) (main_confirm env a)),
      snd (bind_res (main_acquire env a) (main_confirm env a)))"
  using assms by (simp add: main_def check_dependencies_ok then_res_def bind_res_def split: prod.splits)

lemma main_acquire_explicit:
  "args_text a = Some text \<Longrightarrow> text \<noteq> [] \<Longrightarrow>
   main_acquire env a = ([Print (Msg_text_from_args (take 100 text))], Inr text)"
  by (simp add: main_acquire_def truthy_def then_res_emit res_proj)

lemma main_acquire_none:
  "\<not> truthy (args_text a) \<Longrightarrow> snd (get_selected_text env) = Inr None \<Longrightarrow>
   main_acquire env a =
     (Print Msg_acquiring # fst (get_selected_text env) @ [Print Msg_no_text], Inl (SystemExit 1))"
  by (simp add: main_acquire_def then_res_emit bind_res_Inr truthy_def res_proj)

lemma main_acquire_launched:
  "set (launched (fst (main_acquire env a))) \<subseteq> fst ` set methods"
proof (cases "truthy (args_text a)")
  case True
  then show ?thesis by (simp add: main_acquire_def then_res_emit res_proj)
next
  case False
  show ?thesis
  proof (cases "snd (get_selected_text env)")
    case (Inl e)
    then show ?thesis using False get_selected_text_launched[of env]
      by (simp add: main_acquire_def then_res_emit bind_res_Inl)
  next
    case (Inr r)
    then show ?thesis using False get_selected_text_launched[of env]
      by (simp add: main_acquire_def then_res_emit bind_res_Inr launched_append res_proj)
  qed
qed

lemma main_confirm_declined:
  "1000 < length text \<Longrightarrow> reply env = Inr ans \<Longrightarrow> lower ans \<noteq> lit ''y'' \<Longrightarrow>
   main_confirm env a text =
     ([Print (Msg_long_text (length text)), Prompt, Print Msg_cancelled], Inr ())"
  by (simp add: main_confirm_def input_def monad_defs)

lemma main_confirm_accepted:
  "1000 < length text \<Longrightarrow> reply env = Inr ans \<Longrightarrow> lower ans = lit ''y'' \<Longrightarrow>
   main_confirm env a text =
     (Print (Msg_long_text (length text)) # Prompt # fst (main_speak env a text),
      snd (main_speak env a text))"
  by (simp add: main_confirm_def input_def monad_defs split: prod.splits)

lemma main_confirm_short:
  "length text \<le> 1000 \<Longrightarrow> main_confirm env a text = main_speak env a text"
  by (simp add: main_confirm_def)

lemma not_espeak_cmd:
  assumes "cmd = [lit ''espeak'', lit ''--version''] \<or> cmd \<in> fst ` set methods"
  shows "cmd \<noteq> espeak_cmd t kw"
proof
  assume eq: "cmd = espeak_cmd t kw"
  have "length cmd \<le> 4" using assms methods_cmd_length[of cmd] by auto
  moreover have "11 \<le> length cmd" unfolding eq by (rule espeak_cmd_length)
  ultimately show False by simp
qed

lemma last_espeak_cmd: "last (espeak_cmd t kw) = t"
  by (simp add: espeak_cmd_def py_insert_def Let_def)

lemma exit_status_simps:
  "exit_status (t, Inr u) = 0" "exit_status (t, Inl (SystemExit n)) = n"
  by (simp_all add: exit_status_def)

lemmas eval_defs = main_def check_dependencies_def main_acquire_def main_confirm_def main_speak_def
  text_to_speech_def espeak_cmd_def kwargs_of_def subprocess_run_def truthy_def output_given_def
  get_voice_def get_speed_def get_pitch_def get_amplitude_def py_insert_def
  table_env_def default_args_def str_int_def str_nat.simps lit_def monad_defs strip_def isspace_def
  exit_status_def

lemma fallback_loop_some:
  "snd (fallback_loop env ms) = Inr (Some s) \<Longrightarrow> \<exists>x. s = strip x \<and> strip x \<noteq> []"
proof (induction ms)
  case Nil
  then show ?case by (simp add: fallback_loop.simps return_res_def)
next
  case (Cons m ms)
  obtain cmd desc where m: "m = (cmd, desc)" by (cases m)
  show ?case
  proof (cases "os_run env cmd")
    case (Raises e)
    then show ?thesis using Cons m
      by (cases "e = FileNotFoundError") (auto simp: fallback_step_skip fallback_step_raise)
  next
    case (Completed rc out)
    then show ?thesis using Cons m
      by (cases "rc = 0 \<and> strip out \<noteq> []") (auto simp: fallback_step_skip fallback_step_hit)
  qed
qed

lemma get_selected_text_some:
  "snd (get_selected_text env) = Inr (Some s) \<Longrightarrow> \<exists>x. s = strip x \<and> strip x \<noteq> []"
proof (cases "paste env")
  case (Inl e)
  assume a: "snd (get_selected_text env) = Inr (Some s)"
  show ?thesis
  proof (cases "is_Exception e")
    case True
    with Inl a show ?thesis using fallback_loop_some[of env methods s]
      by (simp add: get_selected_text_raise fallback_get_text_def)
  next
    case False
    with Inl a show ?thesis
      by (simp add: get_selected_text_def pyperclip_paste_def monad_defs)
  qed
next
  case (Inr t)
  assume "snd (get_selected_text env) = Inr (Some s)"
  with Inr show ?thesis
    by (auto simp: get_selected_text_def pyperclip_paste_def monad_defs split: if_splits)
qed


lemma collect_voices_one_field:
  "\<exists>l \<in> set ls. length (split_ws [] l) = 1 \<Longrightarrow> collect_voices ls acc = ([], Inl IndexError)"
proof (induction ls arbitrary: acc)
  case Nil
  then show ?case by simp
next
  case (Cons l ls)
  show ?case
  proof (cases "length (split_ws [] l) = 1")
    case True
    then have "split_ws [] l \<noteq> []" by auto
    with True show ?thesis by (simp add: Let_def index_def raise_res_def bind_res_def)
  next
    case False
    with Cons.prems have ex: "\<exists>l \<in> set ls. length (split_ws [] l) = 1" by simp
    show ?thesis
    proof (cases "split_ws [] l = []")
      case True
      then show ?thesis using Cons.IH[OF ex] by simp
    next
      case False
      with \<open>length (split_ws [] l) \<noteq> 1\<close> have "1 < length (split_ws [] l)"
        by (cases "split_ws [] l") auto
      then show ?thesis using False Cons.IH[OF ex]
        by (simp add: Let_def index_def return_res_def bind_res_def)
    qed
  qed
qed

lemma collect_voices_no_one_field:
  "\<forall>l \<in> set ls. length (split_ws [] l) \<noteq> 1 \<Longrightarrow>
   collect_voices ls acc =
     ([], Inr (acc @ map (\<lambda>l. split_ws [] l ! 1) (filter (\<lambda>l. split_ws [] l \<noteq> []) ls)))"
proof (induction ls arbitrary: acc)
  case Nil
  then show ?case by (simp add: return_res_def)
next
  case (Cons l ls)
  show ?case
  proof (cases "split_ws [] l = []")
    case True
    then show ?thesis using Cons by simp
  next
    case False
    with Cons.prems have "1 < length (split_ws [] l)"
      by (cases "split_ws [] l") auto
    then show ?thesis using False Cons
      by (simp add: Let_def index_def return_res_def bind_res_def)
  qed
qed

lemma voices_try_raises:
  "os_run env [lit ''espeak'', lit ''--voices''] = Raises e \<Longrightarrow>
   voices_try env = ([Run [lit ''espeak'', lit ''--voices'']], Inl e)"
  by (simp add: voices_try_def subprocess_run_def monad_defs)

lemma voices_try_one_field:
  "os_run env [lit ''espeak'', lit ''--voices''] = Completed rc out \<Longrightarrow>
   \<exists>l \<in> set (drop 1 (split_on 10 [] (strip out))). length (split_ws [] l) = 1 \<Longrightarrow>
   voices_try env = ([Run [lit ''espeak'', lit ''--voices'']], Inl IndexError)"
  by (simp add: voices_try_def subprocess_run_def monad_defs collect_voices_one_field)

lemma voices_try_success:
  "os_run env [lit ''espeak'', lit ''--voices''] = Completed rc out \<Longrightarrow>
   \<forall>l \<in> set (drop 1 (split_on 10 [] (strip out))). length (split_ws [] l) \<noteq> 1 \<Longrightarrow>
   voices_try env = ([Run [lit ''espeak'', lit ''--voices'']],
     Inr (sorted_list_of_set (set (map (\<lambda>l. split_ws [] l ! 1)
            (filter (\<lambda>l. split_ws [] l \<noteq> []) (drop 1 (split_on 10 [] (strip out))))))))"
  by (simp add: voices_try_def subprocess_run_def monad_defs collect_voices_no_one_field)

lemma get_available_voices_Inl:
  "snd (voices_try env) = Inl e \<Longrightarrow>
   get_available_voices env = (fst (voices_try env), Inr fallback_voices)"
  by (cases "voices_try env") (simp add: get_available_voices_def try_except_def return_res_def)

lemma get_available_voices_Inr:
  "snd (voices_try env) = Inr vs \<Longrightarrow> get_available_voices env = voices_try env"
  by (cases "voices_try env") (simp add: get_available_voices_def try_except_def)

lemma voices_try_sorted:
  assumes "snd (voices_try env) = Inr vs"
  shows "sorted vs \<and> distinct vs"
proof (cases "os_run env [lit ''espeak'', lit ''--voices'']")
  case (Raises e)
  with assms show ?thesis by (simp add: voices_try_raises)
next
  case (Completed rc out)
  show ?thesis
  proof (cases "\<exists>l \<in> set (drop 1 (split_on 10 [] (strip out))). length (split_ws [] l) = 1")
    case True
    with Completed assms show ?thesis by (simp add: voices_try_one_field)
  next
    case False
    then have "\<forall>l \<in> set (drop 1 (split_on 10 [] (strip out))). length (split_ws [] l) \<noteq> 1" by simp
    from voices_try_success[OF Completed this] assms show ?thesis by auto
  qed
qed

lemma fallback_voices_distinct: "distinct fallback_voices"
  by (simp add: fallback_voices_def lit_def)

lemma fallback_voices_unsorted: "\<not> sorted fallback_voices"
  by (simp add: fallback_voices_def lit_def)

section \<open>The claims\<close>

subsection \<open>C1\<close>




subsection \<open>C2\<close>

text \<open>
  C2 (as the code has it). For a non-empty explicit text in normal mode, when the text has
  at most 1000 characters or the confirmation is answered y or Y, the program launches,
  after the version probe, exactly one engine command, built from that text unchanged (not
  trimmed), and the text is the last element of the command.
\<close>

theorem C2_explicit_text_verbatim:
  assumes "os_run env [lit ''espeak'', lit ''--version''] = Completed 0 out"
    and "\<not> args_list_voices a" and "\<not> args_test a"
    and "args_text a = Some t" and "t \<noteq> []"
    and "length t \<le> 1000 \<or> (\<exists>ans. reply env = Inr ans \<and> lower ans = lit ''y'')"
  shows "launched (fst (main env a)) =
           [ [lit ''espeak'', lit ''--version''], espeak_cmd t (kwargs_of a)] \<and>
         last (espeak_cmd t (kwargs_of a)) = t"
proof -
  have acq: "main_acquire env a = ([Print (Msg_text_from_args (take 100 t))], Inr t)"
    using assms(4,5) by (rule main_acquire_explicit)
  have "launched (fst (main_confirm env a t)) = [espeak_cmd t (kwargs_of a)]"
  proof (cases "length t \<le> 1000")
    case True
    then show ?thesis by (simp add: main_confirm_short main_speak_launched)
  next
    case False
    with assms(6) obtain ans where "reply env = Inr ans" "lower ans = lit ''y''" by blast
    with False show ?thesis by (simp add: main_confirm_accepted main_speak_launched)
  qed
  then have "launched (fst (main env a)) =
           [ [lit ''espeak'', lit ''--version''], espeak_cmd t (kwargs_of a)]"
    using main_normal[OF assms(1-3)] acq by (simp add: bind_res_Inr launched_append)
  then show ?thesis by (simp add: last_espeak_cmd)
qed

text \<open>
  C2 at the text " hi " with the default options.
\<close>

theorem C2_explicit_text_verbatim_witness:
  "launched (fst (main env_espeak_only args_padded_text)) =
     [ [lit ''espeak'', lit ''--version''], espeak_cmd (lit '' hi '') (kwargs_of args_padded_text)] \<and>
   last (espeak_cmd (lit '' hi '') (kwargs_of args_padded_text)) = lit '' hi ''"
proof (rule C2_explicit_text_verbatim[where out = "[]"])
  show "os_run env_espeak_only [lit ''espeak'', lit ''--version''] = Completed 0 []"
    by (simp add: env_espeak_only_def table_env_def)
  show "\<not> args_list_voices args_padded_text" "\<not> args_test args_padded_text"
       "args_text args_padded_text = Some (lit '' hi '')"
    by (simp_all add: args_padded_text_def default_args_def)
  show "lit '' hi '' \<noteq> []" by (simp add: lit_def)
  show "length (lit '' hi '') \<le> 1000 \<or>
        (\<exists>ans. reply env_espeak_only = Inr ans \<and> lower ans = lit ''y'')"
    by (simp add: lit_def)
qed

text \<open>
  C2 as stated fails: for the text " hi " the last argument of the engine command is
  " hi ", not the trimmed "hi".
\<close>

theorem C2_text_not_trimmed_counterexample:
  "last (last (launched (fst (main env_espeak_only args_padded_text)))) = lit '' hi '' \<and>
   strip (lit '' hi '') = lit ''hi'' \<and>
   last (last (launched (fst (main env_espeak_only args_padded_text)))) \<noteq> strip (lit '' hi '')"
  by (simp add: env_espeak_only_def args_padded_text_def eval_defs)

subsection \<open>C3\<close>

text \<open>
  C3. A run in normal mode where the engine exits with status 1: the error is reported,
  \<open>main\<close> returns normally, and the exit status of the process is 0.
\<close>

theorem C3_synthesis_failure_exit_status:
  "launched (fst (main env_synthesis_fails args_hi)) = [ [lit ''espeak'', lit ''--version''], hi_cmd] \<and>
   os_run env_synthesis_fails hi_cmd = Completed 1 [] \<and>
   Msg_espeak_error (CalledProcessError 1) \<in> set (printed (fst (main env_synthesis_fails args_hi))) \<and>
   Msg_speech_failed \<in> set (printed (fst (main env_synthesis_fails args_hi))) \<and>
   snd (main env_synthesis_fails args_hi) = Inr () \<and>
   exit_status (main env_synthesis_fails args_hi) = 0"
  by (simp add: env_synthesis_fails_def args_hi_def hi_cmd_def eval_defs)

subsection \<open>C4\<close>

text \<open>
  C4. The command built for the text "hi" and the output path "out.wav" with the default
  options, which is the command launched: the text is its last element, and the file-write
  flag and the path stand right before it, but behind the end-of-options marker, which is
  the element at index 9. No element before the marker is the file-write flag, so the
  engine is given the flag and the path as operands, like the text, not as an option.
\<close>

theorem C4_write_flag_behind_marker:
  "espeak_cmd (lit ''hi'') kwargs_wav =
     [lit ''espeak'', lit ''-v'', lit ''ru'', lit ''-s'', lit ''160'', lit ''-p'', lit ''50'',
      lit ''-a'', lit ''100'', lit ''--'', lit ''-w'', lit ''out.wav'', lit ''hi''] \<and>
   launched (fst (text_to_speech env_engine_vanishes (lit ''hi'') kwargs_wav)) =
     [espeak_cmd (lit ''hi'') kwargs_wav] \<and>
   last (espeak_cmd (lit ''hi'') kwargs_wav) = lit ''hi'' \<and>
   espeak_cmd (lit ''hi'') kwargs_wav ! 9 = lit ''--'' \<and>
   drop 10 (espeak_cmd (lit ''hi'') kwargs_wav) = [lit ''-w'', lit ''out.wav'', lit ''hi''] \<and>
   lit ''-w'' \<notin> set (take 9 (espeak_cmd (lit ''hi'') kwargs_wav))"
proof -
  have h1: "kw_output kwargs_wav = Some (lit ''out.wav'')"
    by (simp add: kwargs_wav_def kwargs_of_def default_args_def)
  have h2: "lit ''out.wav'' \<noteq> []" by (simp add: lit_def)
  have c: "espeak_cmd (lit ''hi'') kwargs_wav =
     [lit ''espeak'', lit ''-v'', lit ''ru'', lit ''-s'', lit ''160'', lit ''-p'', lit ''50'',
      lit ''-a'', lit ''100'', lit ''--'', lit ''-w'', lit ''out.wav'', lit ''hi'']"
    using espeak_cmd_with_output[OF h1 h2, of "lit ''hi''"]
    by (simp add: kwargs_wav_def kwargs_of_def default_args_def get_voice_def get_speed_def
          get_pitch_def get_amplitude_def str_int_def str_nat.simps lit_def)
  have l: "launched (fst (text_to_speech env_engine_vanishes (lit ''hi'') kwargs_wav)) =
     [espeak_cmd (lit ''hi'') kwargs_wav]"
    by (rule text_to_speech_launched)
  have w: "lit ''-w'' \<notin> set (take 9 (espeak_cmd (lit ''hi'') kwargs_wav))"
    unfolding c by (simp add: lit_def)
  show ?thesis using l w unfolding c by simp
qed

subsection \<open>C5\<close>

text \<open>
  C5 (as the code has it). \<open>get_available_voices\<close> never raises. It returns the fixed
  list ru, en, de, fr, es when launching the engine raises, and when some line after the
  header of the trimmed output has exactly one field. For any other output it returns the
  sorted set of the second fields of the non-blank lines after the header.
\<close>

theorem C5_fallback_on_exception:
  "(\<exists>vs. snd (get_available_voices env) = Inr vs) \<and>
   (os_run env [lit ''espeak'', lit ''--voices''] = Raises e \<longrightarrow>
      snd (get_available_voices env) = Inr [lit ''ru'', lit ''en'', lit ''de'', lit ''fr'', lit ''es'']) \<and>
   (os_run env [lit ''espeak'', lit ''--voices''] = Completed rc out \<and>
    (\<exists>l \<in> set (drop 1 (split_on 10 [] (strip out))). length (split_ws [] l) = 1) \<longrightarrow>
      snd (get_available_voices env) = Inr [lit ''ru'', lit ''en'', lit ''de'', lit ''fr'', lit ''es'']) \<and>
   (os_run env [lit ''espeak'', lit ''--voices''] = Completed rc out \<and>
    (\<forall>l \<in> set (drop 1 (split_on 10 [] (strip out))). length (split_ws [] l) \<noteq> 1) \<longrightarrow>
      snd (get_available_voices env) =
        Inr (sorted_list_of_set (set (map (\<lambda>l. split_ws [] l ! 1)
               (filter (\<lambda>l. split_ws [] l \<noteq> []) (drop 1 (split_on 10 [] (strip out))))))))"
proof (intro conjI impI)
  show "\<exists>vs. snd (get_available_voices env) = Inr vs"
    by (cases "snd (voices_try env)")
       (auto simp: get_available_voices_Inl get_available_voices_Inr)
next
  assume "os_run env [lit ''espeak'', lit ''--voices''] = Raises e"
  then show "snd (get_available_voices env) = Inr [lit ''ru'', lit ''en'', lit ''de'', lit ''fr'', lit ''es'']"
    by (simp add: get_available_voices_Inl voices_try_raises fallback_voices_def)
next
  assume "os_run env [lit ''espeak'', lit ''--voices''] = Completed rc out \<and>
    (\<exists>l \<in> set (drop 1 (split_on 10 [] (strip out))). length (split_ws [] l) = 1)"
  then show "snd (get_available_voices env) = Inr [lit ''ru'', lit ''en'', lit ''de'', lit ''fr'', lit ''es'']"
    by (simp add: get_available_voices_Inl voices_try_one_field fallback_voices_def)
next
  assume "os_run env [lit ''espeak'', lit ''--voices''] = Completed rc out \<and>
    (\<forall>l \<in> set (drop 1 (split_on 10 [] (strip out))). length (split_ws [] l) \<noteq> 1)"
  then show "snd (get_available_voices env) =
        Inr (sorted_list_of_set (set (map (\<lambda>l. split_ws [] l ! 1)
               (filter (\<lambda>l. split_ws [] l \<noteq> []) (drop 1 (split_on 10 [] (strip out)))))))"
    by (simp add: get_available_voices_Inr voices_try_success)
qed

text \<open>
  C5 at a missing engine, at an output with a line of one field, and at three voices.
\<close>

theorem C5_fallback_on_exception_witness:
  "snd (get_available_voices env_no_text) = Inr [lit ''ru'', lit ''en'', lit ''de'', lit ''fr'', lit ''es''] \<and>
   snd (get_available_voices env_one_field_line) = Inr [lit ''ru'', lit ''en'', lit ''de'', lit ''fr'', lit ''es''] \<and>
   snd (get_available_voices env_three_voices) = Inr [lit ''en'', lit ''ru'']"
proof -
  have h1: "os_run env_no_text [lit ''espeak'', lit ''--voices''] = Raises FileNotFoundError"
    by (simp add: env_no_text_def table_env_def lit_def)
  have h2: "os_run env_one_field_line [lit ''espeak'', lit ''--voices'']
              = Completed 0 one_field_output \<and>
            (\<exists>l \<in> set (drop 1 (split_on 10 [] (strip one_field_output))).
               length (split_ws [] l) = 1)"
    by (simp add: env_one_field_line_def one_field_output_def table_env_def strip_def isspace_def lit_def)
  have h3: "os_run env_three_voices [lit ''espeak'', lit ''--voices'']
              = Completed 0 three_voices_output \<and>
            (\<forall>l \<in> set (drop 1 (split_on 10 [] (strip three_voices_output))).
               length (split_ws [] l) \<noteq> 1)"
    by (simp add: env_three_voices_def three_voices_output_def table_env_def strip_def isspace_def lit_def)
  from C5_fallback_on_exception[of env_no_text FileNotFoundError 0 "[]"] h1
  have a: "snd (get_available_voices env_no_text) = Inr [lit ''ru'', lit ''en'', lit ''de'', lit ''fr'', lit ''es'']"
    by simp
  from C5_fallback_on_exception[of env_one_field_line FileNotFoundError 0 one_field_output] h2
  have b: "snd (get_available_voices env_one_field_line) = Inr [lit ''ru'', lit ''en'', lit ''de'', lit ''fr'', lit ''es'']"
    by blast
  from C5_fallback_on_exception[of env_three_voices FileNotFoundError 0 three_voices_output] h3
  have "snd (get_available_voices env_three_voices) =
        Inr (sorted_list_of_set (set (map (\<lambda>l. split_ws [] l ! 1)
               (filter (\<lambda>l. split_ws [] l \<noteq> []) (drop 1 (split_on 10 [] (strip three_voices_output)))))))"
    by blast
  moreover have "map (\<lambda>l. split_ws [] l ! 1)
               (filter (\<lambda>l. split_ws [] l \<noteq> []) (drop 1 (split_on 10 [] (strip three_voices_output))))
          = [lit ''ru'', lit ''en'', lit ''ru'']"
    by (simp add: three_voices_output_def strip_def isspace_def lit_def)
  moreover have "sorted_list_of_set (set [lit ''ru'', lit ''en'', lit ''ru'']) = [lit ''en'', lit ''ru'']"
    unfolding sorted_list_of_set_sort_remdups by (simp add: lit_def)
  ultimately have c: "snd (get_available_voices env_three_voices) = Inr [lit ''en'', lit ''ru'']"
    by (simp only:)
  from a b c show ?thesis by simp
qed

text \<open>
  C5 as stated fails: for an engine that prints nothing the result is the empty list,
  not the fixed list.
\<close>

theorem C5_empty_output_counterexample:
  "os_run env_no_voices [lit ''espeak'', lit ''--voices''] = Completed 0 [] \<and>
   snd (get_available_voices env_no_voices) = Inr [] \<and>
   snd (get_available_voices env_no_voices) \<noteq> Inr [lit ''ru'', lit ''en'', lit ''de'', lit ''fr'', lit ''es'']"
  by (simp add: env_no_voices_def table_env_def get_available_voices_def voices_try_def
        subprocess_run_def monad_defs strip_def lit_def)

subsection \<open>C6\<close>

text \<open>
  C6. Two runs of "tts -t hi" in which the version probe succeeds and launching the engine
  for the text raises, once some other exception and once FileNotFoundError. In both the
  exception leaves \<open>text_to_speech\<close> and \<open>main\<close> uncaught: no failure is returned
  to the caller, neither the engine error nor the failure message nor the advice on a
  missing engine is printed, and the process ends on the exception, with exit status 1.
\<close>

theorem C6_launch_failure_escapes:
  "os_run env_launch_fails (espeak_cmd (lit ''hi'') (kwargs_of args_hi)) = Raises OtherException \<and>
   snd (text_to_speech env_launch_fails (lit ''hi'') (kwargs_of args_hi)) = Inl OtherException \<and>
   snd (main env_launch_fails args_hi) = Inl OtherException \<and>
   exit_status (main env_launch_fails args_hi) = 1 \<and>
   Msg_speech_failed \<notin> set (printed (fst (main env_launch_fails args_hi))) \<and>
   os_run env_engine_vanishes [lit ''espeak'', lit ''--version''] = Completed 0 [] \<and>
   os_run env_engine_vanishes (espeak_cmd (lit ''hi'') (kwargs_of args_hi)) = Raises FileNotFoundError \<and>
   snd (text_to_speech env_engine_vanishes (lit ''hi'') (kwargs_of args_hi)) = Inl FileNotFoundError \<and>
   snd (main env_engine_vanishes args_hi) = Inl FileNotFoundError \<and>
   exit_status (main env_engine_vanishes args_hi) = 1 \<and>
   Msg_speech_failed \<notin> set (printed (fst (main env_engine_vanishes args_hi))) \<and>
   Msg_espeak_error FileNotFoundError \<notin> set (printed (fst (main env_engine_vanishes args_hi))) \<and>
   Msg_espeak_missing \<notin> set (printed (fst (main env_engine_vanishes args_hi)))"
  by (simp add: env_launch_fails_def env_engine_vanishes_def args_hi_def hi_cmd_def eval_defs)

subsection \<open>C7\<close>

text \<open>
  C7. When no explicit text is given (none, or the empty string), the primary clipboard
  read yields a blank string or fails, and each of the three fallback commands is missing,
  exits non-zero or prints only blanks, then in normal mode the program prints the advice
  on what to do, exits with status 1, and no command it launched is a synthesis command.
\<close>

theorem C7_no_text_exits_nonzero:
  assumes "os_run env [lit ''espeak'', lit ''--version''] = Completed 0 out"
    and "\<not> args_list_voices a" and "\<not> args_test a"
    and "\<not> truthy (args_text a)"
    and "(\<exists>t. paste env = Inr t \<and> strip t = []) \<or> (\<exists>e. paste env = Inl e \<and> is_Exception e)"
    and "\<forall>cmd \<in> fst ` set methods.
           (case os_run env cmd of Raises e \<Rightarrow> e = FileNotFoundError
            | Completed rc out \<Rightarrow> rc \<noteq> 0 \<or> strip out = [])"
  shows "Msg_no_text \<in> set (printed (fst (main env a))) \<and>
         exit_status (main env a) = 1 \<and>
         (\<forall>cmd \<in> set (launched (fst (main env a))). \<forall>t kw. cmd \<noteq> espeak_cmd t kw)"
proof -
  have none: "snd (get_selected_text env) = Inr None"
  proof -
    from assms(5) consider t where "paste env = Inr t" "strip t = []"
      | e where "paste env = Inl e" "is_Exception e" by blast
    then show ?thesis
    proof cases
      case 1
      then show ?thesis by (simp add: get_selected_text_blank)
    next
      case 2
      then show ?thesis using fallback_loop_all_skipped[OF assms(6)]
        by (simp add: get_selected_text_raise fallback_get_text_def)
    qed
  qed
  let ?g = "fst (get_selected_text env)"
  have acq: "main_acquire env a = (Print Msg_acquiring # ?g @ [Print Msg_no_text], Inl (SystemExit 1))"
    using assms(4) none by (rule main_acquire_none)
  have m: "main env a =
      (Run [lit ''espeak'', lit ''--version''] # Print Msg_acquiring # ?g @ [Print Msg_no_text],
       Inl (SystemExit 1))"
    using main_normal[OF assms(1-3)] acq by (simp add: bind_res_Inl)
  have l: "set (launched (fst (main env a))) \<subseteq>
             insert [lit ''espeak'', lit ''--version''] (fst ` set methods)"
    using get_selected_text_launched[of env] by (auto simp: m launched_append)
  have "\<forall>cmd \<in> set (launched (fst (main env a))). \<forall>t kw. cmd \<noteq> espeak_cmd t kw"
    using l not_espeak_cmd by blast
  then show ?thesis by (simp add: m printed_append exit_status_simps)
qed

text \<open>C7 at a run where pyperclip fails, xclip prints a blank or exits 1 and xsel is missing.\<close>

theorem C7_no_text_exits_nonzero_witness:
  "Msg_no_text \<in> set (printed (fst (main env_no_text default_args))) \<and>
   exit_status (main env_no_text default_args) = 1 \<and>
   espeak_cmd test_text (kwargs_of default_args)
     \<notin> set (launched (fst (main env_no_text default_args)))"
proof -
  have "Msg_no_text \<in> set (printed (fst (main env_no_text default_args))) \<and>
        exit_status (main env_no_text default_args) = 1 \<and>
        (\<forall>cmd \<in> set (launched (fst (main env_no_text default_args))).
           \<forall>t kw. cmd \<noteq> espeak_cmd t kw)"
  proof (rule C7_no_text_exits_nonzero[where out = "[]"])
    show "os_run env_no_text [lit ''espeak'', lit ''--version''] = Completed 0 []"
      by (simp add: env_no_text_def table_env_def)
    show "\<not> args_list_voices default_args" "\<not> args_test default_args"
         "\<not> truthy (args_text default_args)"
      by (simp_all add: default_args_def truthy_def)
    show "(\<exists>t. paste env_no_text = Inr t \<and> strip t = []) \<or>
          (\<exists>e. paste env_no_text = Inl e \<and> is_Exception e)"
      by (simp add: env_no_text_def table_env_def strip_def isspace_def lit_def)
    show "\<forall>cmd \<in> fst ` set methods.
             (case os_run env_no_text cmd of Raises e \<Rightarrow> e = FileNotFoundError
              | Completed rc out \<Rightarrow> rc \<noteq> 0 \<or> strip out = [])"
      by (simp add: env_no_text_def table_env_def methods_def strip_def isspace_def lit_def)
  qed
  then show ?thesis by blast
qed

subsection \<open>C8\<close>

text \<open>
  C8. In normal mode, when the text obtained has more than 1000 characters and the answer
  to the confirmation is not y or Y, the program prints the cancellation message, exits
  with status 0, and no command it launched is a synthesis command.
\<close>

theorem C8_long_text_declined:
  assumes "os_run env [lit ''espeak'', lit ''--version''] = Completed 0 out"
    and "\<not> args_list_voices a" and "\<not> args_test a"
    and "snd (main_acquire env a) = Inr t"
    and "1000 < length t"
    and "reply env = Inr ans"
    and "lower ans \<noteq> lit ''y''"
  shows "Msg_cancelled \<in> set (printed (fst (main env a))) \<and>
         exit_status (main env a) = 0 \<and>
         (\<forall>cmd \<in> set (launched (fst (main env a))). \<forall>s kw. cmd \<noteq> espeak_cmd s kw)"
proof -
  let ?q = "fst (main_acquire env a)"
  have m: "main env a =
      (Run [lit ''espeak'', lit ''--version''] # ?q @
         [Print (Msg_long_text (length t)), Prompt, Print Msg_cancelled], Inr ())"
    using main_normal[OF assms(1-3)] assms(4) main_confirm_declined[OF assms(5-7), of a]
    by (simp add: bind_res_Inr)
  have l: "set (launched (fst (main env a))) \<subseteq>
             insert [lit ''espeak'', lit ''--version''] (fst ` set methods)"
    using main_acquire_launched[of env a] by (auto simp: m launched_append)
  have "\<forall>cmd \<in> set (launched (fst (main env a))). \<forall>s kw. cmd \<noteq> espeak_cmd s kw"
    using l not_espeak_cmd by blast
  then show ?thesis by (simp add: m printed_append exit_status_simps)
qed

text \<open>
  C8 at an explicit text of 1001 characters and the answer n.
\<close>

theorem C8_long_text_declined_witness:
  "Msg_cancelled \<in> set (printed (fst (main env_declines args_long_text))) \<and>
   exit_status (main env_declines args_long_text) = 0 \<and>
   espeak_cmd (replicate 1001 97) (kwargs_of args_long_text)
     \<notin> set (launched (fst (main env_declines args_long_text)))"
proof -
  have "Msg_cancelled \<in> set (printed (fst (main env_declines args_long_text))) \<and>
        exit_status (main env_declines args_long_text) = 0 \<and>
        (\<forall>cmd \<in> set (launched (fst (main env_declines args_long_text))).
           \<forall>s kw. cmd \<noteq> espeak_cmd s kw)"
  proof (rule C8_long_text_declined[where out = "[]" and t = "replicate 1001 97" and ans = "lit ''n''"])
    show "os_run env_declines [lit ''espeak'', lit ''--version''] = Completed 0 []"
      by (simp add: env_declines_def table_env_def)
    show "\<not> args_list_voices args_long_text" "\<not> args_test args_long_text"
      by (simp_all add: args_long_text_def default_args_def)
    show "snd (main_acquire env_declines args_long_text) = Inr (replicate 1001 97)"
      by (simp add: main_acquire_explicit args_long_text_def)
    show "1000 < length (replicate 1001 (97::nat))" by simp
    show "reply env_declines = Inr (lit ''n'')" by (simp add: env_declines_def table_env_def)
    show "lower (lit ''n'') \<noteq> lit ''y''" by (simp add: lower_def lit_def)
  qed
  then show ?thesis by blast
qed

subsection \<open>C9\<close>

text \<open>
  C9. A string returned by \<open>get_selected_text\<close> or by the fallback chain is not empty,
  is not empty after trimming, and equals its own trimmed form. (The other value these
  functions return is None.)
\<close>

theorem C9_acquired_text_trimmed:
  assumes "snd (get_selected_text env) = Inr (Some s) \<or> snd (fallback_get_text env) = Inr (Some s)"
  shows "s \<noteq> [] \<and> strip s \<noteq> [] \<and> strip s = s"
proof -
  from assms have "\<exists>x. s = strip x \<and> strip x \<noteq> []"
    using get_selected_text_some fallback_loop_some by (auto simp: fallback_get_text_def)
  then show ?thesis by (auto simp: strip_idem)
qed

text \<open>
  C9 at a clipboard holding " hi  " and at a fallback command printing "hello".
\<close>

theorem C9_acquired_text_trimmed_witness:
  "snd (get_selected_text env_padded_clipboard) = Inr (Some (lit ''hi'')) \<and>
   snd (fallback_get_text env_blank_clipboard) = Inr (Some (lit ''hello'')) \<and>
   lit ''hi'' \<noteq> [] \<and> strip (lit ''hi'') = lit ''hi'' \<and>
   lit ''hello'' \<noteq> [] \<and> strip (lit ''hello'') = lit ''hello''"
proof -
  have h1: "snd (get_selected_text env_padded_clipboard) = Inr (Some (lit ''hi''))"
    by (simp add: env_padded_clipboard_def get_selected_text_def pyperclip_paste_def
          table_env_def monad_defs strip_def isspace_def lit_def)
  have h2: "snd (fallback_get_text env_blank_clipboard) = Inr (Some (lit ''hello''))"
    by (simp add: env_blank_clipboard_def fallback_get_text_def methods_def fallback_loop.simps
          subprocess_run_def table_env_def monad_defs strip_def isspace_def lit_def)
  from h1 have "snd (get_selected_text env_padded_clipboard) = Inr (Some (lit ''hi'')) \<or>
                snd (fallback_get_text env_padded_clipboard) = Inr (Some (lit ''hi''))" by simp
  from C9_acquired_text_trimmed[OF this] have c1: "lit ''hi'' \<noteq> [] \<and> strip (lit ''hi'') = lit ''hi''"
    by simp
  from h2 have "snd (get_selected_text env_blank_clipboard) = Inr (Some (lit ''hello'')) \<or>
                snd (fallback_get_text env_blank_clipboard) = Inr (Some (lit ''hello''))" by simp
  from C9_acquired_text_trimmed[OF this]
  have c2: "lit ''hello'' \<noteq> [] \<and> strip (lit ''hello'') = lit ''hello''" by simp
  from h1 h2 c1 c2 show ?thesis by simp
qed

subsection \<open>C10\<close>

text \<open>
  C10 (as the code has it). When the \<open>try\<close> block completes, the list returned is sorted
  in ascending order and has no duplicates. When it raises, the list returned is the
  fixed list, which has no duplicates.
\<close>

theorem C10_voices_distinct_sorted_on_success:
  "(snd (voices_try env) = Inr vs \<longrightarrow>
      snd (get_available_voices env) = Inr vs \<and> sorted vs \<and> distinct vs) \<and>
   (snd (voices_try env) = Inl e \<longrightarrow>
      snd (get_available_voices env) = Inr fallback_voices \<and> distinct fallback_voices)"
  using voices_try_sorted[of env vs]
  by (auto simp: get_available_voices_Inl get_available_voices_Inr fallback_voices_distinct)

text \<open>
  C10 at an engine listing ru, en, ru, and at a missing engine.
\<close>

theorem C10_voices_distinct_sorted_on_success_witness:
  "snd (get_available_voices env_three_voices) = Inr [lit ''en'', lit ''ru''] \<and>
   sorted [lit ''en'', lit ''ru''] \<and> distinct [lit ''en'', lit ''ru''] \<and>
   snd (get_available_voices env_no_text) = Inr fallback_voices \<and> distinct fallback_voices"
proof -
  have h1: "snd (voices_try env_three_voices) = Inr [lit ''en'', lit ''ru'']"
    by (simp add: env_three_voices_def three_voices_output_def table_env_def voices_try_def
          subprocess_run_def monad_defs strip_def isspace_def index_def
          sorted_list_of_set_sort_remdups lit_def)
  have h2: "snd (voices_try env_no_text) = Inl FileNotFoundError"
    by (simp add: env_no_text_def table_env_def voices_try_def subprocess_run_def monad_defs lit_def)
  from C10_voices_distinct_sorted_on_success[of env_three_voices "[lit ''en'', lit ''ru'']" FileNotFoundError] h1
  have a: "snd (get_available_voices env_three_voices) = Inr [lit ''en'', lit ''ru''] \<and>
   sorted [lit ''en'', lit ''ru''] \<and> distinct [lit ''en'', lit ''ru'']" by blast
  from C10_voices_distinct_sorted_on_success[of env_no_text "[]" FileNotFoundError] h2
  have b: "snd (get_available_voices env_no_text) = Inr fallback_voices \<and> distinct fallback_voices"
    by blast
  from a b show ?thesis by simp
qed

text \<open>
  C10 as stated fails: with the engine missing the list returned is ru, en, de, fr, es,
  which is not in ascending order.
\<close>

theorem C10_fallback_not_sorted_counterexample:
  "os_run env_no_text [lit ''espeak'', lit ''--voices''] = Raises FileNotFoundError \<and>
   snd (get_available_voices env_no_text) = Inr [lit ''ru'', lit ''en'', lit ''de'', lit ''fr'', lit ''es''] \<and>
   \<not> sorted [lit ''ru'', lit ''en'', lit ''de'', lit ''fr'', lit ''es'']"
  by (simp add: env_no_text_def table_env_def get_available_voices_def voices_try_def
        subprocess_run_def monad_defs fallback_voices_def lit_def)

end
